theory Spec2Isabelle
  imports Main "HOL-Library.Multiset"
begin

section \<open>Data model of the flashcard session (js/scripts.js, js/sheets.js)\<close>

text \<open>
  A question record as \<open>transformSheetsData\<close> and \<open>MOCK_QUESTIONS\<close> build it. The
  classification fields are read with \<open>!==\<close> against a filter string; a record may lack one
  (a mock record has no \<open>subCategory\<close>), so they are optional strings, \<open>None\<close> standing
  for \<open>undefined\<close>. \<open>bookmark\<close> is only ever tested for truthiness.
\<close>

record question =
  qid :: int
  category :: "string option"
  subCategory :: "string option"
  questionText :: string
  answer :: string
  questionWithAsterisk :: "string option"
  civicsTestUpdates :: "string option"
  bookmark :: bool

text \<open>The module-level object \<open>filters\<close>.\<close>

record filters =
  f_category :: string
  f_subCategory :: string
  f_bookmarked :: string
  f_questionWithAsterisk :: string
  f_civicsTestUpdates :: string
  f_shuffleUnasked :: bool

text \<open>
  A JavaScript number used as an array index: \<open>(currentIndex + 1) % 0\<close> is \<open>NaN\<close>,
  \<open>findIndex\<close> may answer \<open>-1\<close>, and an array read at either is \<open>undefined\<close>.
\<close>

datatype jsnum = Num int | NaN

fun js_nth :: "'a list \<Rightarrow> jsnum \<Rightarrow> 'a option" where
  "js_nth xs NaN = None"
| "js_nth xs (Num i) = (if 0 \<le> i \<and> i < int (length xs) then Some (xs ! nat i) else None)"

text \<open>
  The remainder operator \<open>%\<close> on integers, with a positive divisor: the result takes the
  sign of the dividend. \<open>js_succ_mod c n\<close> is \<open>(c + 1) % n\<close>.
\<close>

definition js_rem :: "int \<Rightarrow> int \<Rightarrow> int" where
  "js_rem a b = (if a < 0 then - ((- a) mod b) else a mod b)"

fun js_succ_mod :: "jsnum \<Rightarrow> nat \<Rightarrow> jsnum" where
  "js_succ_mod NaN n = NaN"
| "js_succ_mod (Num i) n = (if n = 0 then NaN else Num (js_rem (i + 1) (int n)))"

text \<open>
  A JavaScript \<open>Set\<close> of ids is kept as the list of its members in insertion order, which
  is the order \<open>[...set]\<close> and \<open>forEach\<close> see.
\<close>

definition Set_has :: "int list \<Rightarrow> int \<Rightarrow> bool" where
  "Set_has s x = (x \<in> set s)"

definition Set_add :: "int \<Rightarrow> int list \<Rightarrow> int list" where
  "Set_add x s = (if x \<in> set s then s else s @ [x])"

definition Set_delete :: "int \<Rightarrow> int list \<Rightarrow> int list" where
  "Set_delete x s = removeAll x s"

definition Set_size :: "int list \<Rightarrow> nat" where
  "Set_size s = length (remdups s)"

text \<open>
  The session: the module-level variables of scripts.js, \<open>CONFIG.SHEET_NAME\<close>, the
  \<open>bookmarks\<close> item of \<open>localStorage\<close> (\<open>None\<close> when absent or not an array), and the
  future results of \<open>Math.random()\<close>. A draw is kept as a natural number \<open>r\<close>, and
  \<open>Math.floor(Math.random() * m)\<close> is read as \<open>r mod m\<close>: both range over exactly
  \<open>0, ..., m - 1\<close>.
\<close>

record session =
  questions :: "question list"
  filteredQuestions :: "question list"
  currentIndex :: jsnum
  historyBack :: "jsnum list"
  historyForward :: "jsnum list"
  showAnswerFlag :: bool
  answeredQuestions :: "int list"
  bookmarkedQuestions :: "int list"
  filters :: filters
  sheetName :: string
  storedBookmarks :: "int list option"
  rng :: "nat \<Rightarrow> nat"

section \<open>Shuffle\<close>

text \<open>
  \<open>shuffleArray\<close>: the loop \<open>for (i = a.length - 1; i > 0; i--)\<close> with
  \<open>j = Math.floor(Math.random() * (i + 1))\<close> and the swap \<open>[a[i], a[j]] = [a[j], a[i]]\<close>.
  The loop consumes one draw per iteration and hands back the remaining draws.
\<close>

fun shuffle_loop :: "nat \<Rightarrow> 'a list \<Rightarrow> (nat \<Rightarrow> nat) \<Rightarrow> 'a list \<times> (nat \<Rightarrow> nat)" where
  "shuffle_loop 0 a g = (a, g)"
| "shuffle_loop (Suc i) a g =
     (let j = g 0 mod (Suc i + 1)
      in shuffle_loop i (a[Suc i := a ! j, j := a ! Suc i]) (\<lambda>k. g (Suc k)))"

definition shuffleArray :: "'a list \<Rightarrow> (nat \<Rightarrow> nat) \<Rightarrow> 'a list \<times> (nat \<Rightarrow> nat)" where
  "shuffleArray arr g = shuffle_loop (length arr - 1) arr g"

definition shuffleUnasked :: "int list \<Rightarrow> question list \<Rightarrow> (nat \<Rightarrow> nat) \<Rightarrow> question list \<times> (nat \<Rightarrow> nat)" where
  "shuffleUnasked answered list g =
     (let unasked = filter (\<lambda>q. \<not> Set_has answered (qid q)) list;
          asked = filter (\<lambda>q. Set_has answered (qid q)) list;
          (sh, g') = shuffleArray unasked g
      in (sh @ asked, g'))"

section \<open>Filters\<close>

text \<open>The callback of \<open>questions.filter\<close> in \<open>applyFilters\<close>, one early return per line.\<close>

definition keeps :: "filters \<Rightarrow> int list \<Rightarrow> question \<Rightarrow> bool" where
  "keeps f bm q =
     (if f_category f \<noteq> ''All'' \<and> category q \<noteq> Some (f_category f) then False
      else if f_subCategory f \<noteq> ''All'' \<and> subCategory q \<noteq> Some (f_subCategory f) then False
      else if f_bookmarked f = ''Bookmarked'' \<and> \<not> Set_has bm (qid q) then False
      else if f_questionWithAsterisk f = ''Yes'' \<and> questionWithAsterisk q \<noteq> Some ''Yes'' then False
      else if f_civicsTestUpdates f = ''Yes'' \<and> civicsTestUpdates q \<noteq> Some ''Yes'' then False
      else True)"

definition initHistory :: "session \<Rightarrow> session" where
  "initHistory s = s\<lparr>historyBack := [currentIndex s], historyForward := []\<rparr>"

text \<open>
  \<open>applyFilters\<close>. \<open>currentQ\<close> is read from the new list at the old index;
  \<open>displayCurrentQuestion\<close> writes to the page only.
\<close>

definition applyFilters :: "session \<Rightarrow> session" where
  "applyFilters s =
     (let fq = filter (keeps (filters s) (bookmarkedQuestions s)) (questions s);
          (fq', g') = (if f_shuffleUnasked (filters s)
                       then shuffleUnasked (answeredQuestions s) fq (rng s)
                       else (fq, rng s));
          ci = (if length fq' > 0
                then (case js_nth fq' (currentIndex s) of
                        None \<Rightarrow> Num 0
                      | Some currentQ \<Rightarrow> (if currentQ \<notin> set fq' then Num 0 else currentIndex s))
                else Num 0)
      in initHistory (s\<lparr>filteredQuestions := fq', rng := g', currentIndex := ci,
                        showAnswerFlag := False\<rparr>))"

section \<open>Bookmarks and storage\<close>

definition saveBookmarks :: "session \<Rightarrow> session" where
  "saveBookmarks s = s\<lparr>storedBookmarks := Some (bookmarkedQuestions s)\<rparr>"

text \<open>\<open>forEach(id => set.add(id))\<close>: the ids are added from the first to the last.\<close>

definition Set_addAll :: "int list \<Rightarrow> int list \<Rightarrow> int list" where
  "Set_addAll ids s = fold Set_add ids s"

definition loadBookmarksFromStorage :: "session \<Rightarrow> session" where
  "loadBookmarksFromStorage s =
     (case storedBookmarks s of
        None \<Rightarrow> s
      | Some parsed \<Rightarrow> s\<lparr>bookmarkedQuestions := Set_addAll parsed (bookmarkedQuestions s)\<rparr>)"

definition initializeBookmarks :: "session \<Rightarrow> session" where
  "initializeBookmarks s =
     loadBookmarksFromStorage
       (s\<lparr>bookmarkedQuestions := Set_addAll (map qid (filter bookmark (questions s))) []\<rparr>)"

definition resetBookmarks :: "session \<Rightarrow> session" where
  "resetBookmarks s = applyFilters (saveBookmarks (s\<lparr>bookmarkedQuestions := []\<rparr>))"

section \<open>Navigation\<close>

definition markAnswered :: "question option \<Rightarrow> session \<Rightarrow> session" where
  "markAnswered q s =
     (case q of
        None \<Rightarrow> s
      | Some q' \<Rightarrow> s\<lparr>answeredQuestions := Set_add (qid q') (answeredQuestions s)\<rparr>)"

text \<open>
  \<open>toggleAnswer\<close>. The rendering call between the flip and \<open>markAnswered\<close> can only throw
  when \<open>currentIndex\<close> addresses no record, and then \<open>markAnswered(undefined)\<close> would have
  changed nothing: the session is the same either way.
\<close>

definition toggleAnswer :: "session \<Rightarrow> session" where
  "toggleAnswer s =
     (if length (filteredQuestions s) = 0 then s
      else let s1 = s\<lparr>showAnswerFlag := \<not> showAnswerFlag s\<rparr>
           in if showAnswerFlag s1
              then markAnswered (js_nth (filteredQuestions s1) (currentIndex s1)) s1
              else s1)"

text \<open>\<open>Array.prototype.findIndex\<close>: the first index whose element passes, or \<open>-1\<close>.\<close>

fun findIndex_from :: "nat \<Rightarrow> ('a \<Rightarrow> bool) \<Rightarrow> 'a list \<Rightarrow> int" where
  "findIndex_from k P [] = - 1"
| "findIndex_from k P (x # xs) = (if P x then int k else findIndex_from (Suc k) P xs)"

definition findIndex :: "('a \<Rightarrow> bool) \<Rightarrow> 'a list \<Rightarrow> jsnum" where
  "findIndex P xs = Num (findIndex_from 0 P xs)"

text \<open>
  \<open>nextQuestion\<close>. \<open>push\<close> appends to the end of the history array and \<open>pop\<close> takes its
  last element. All assignments to the session precede the rendering calls.
\<close>

definition nextQuestion :: "session \<Rightarrow> session" where
  "nextQuestion s =
     (if \<not> showAnswerFlag s then toggleAnswer s
      else if length (historyForward s) > 0 then
        s\<lparr>historyBack := historyBack s @ [currentIndex s],
          currentIndex := last (historyForward s),
          historyForward := butlast (historyForward s),
          showAnswerFlag := False\<rparr>
      else
        let s1 = s\<lparr>historyBack := historyBack s @ [currentIndex s]\<rparr>;
            s2 = (if f_shuffleUnasked (filters s1) then
                    (let unasked = filter (\<lambda>q. \<not> Set_has (answeredQuestions s1) (qid q))
                                     (filteredQuestions s1)
                     in if length unasked = 0 then
                          s1\<lparr>currentIndex :=
                               js_succ_mod (currentIndex s1) (length (filteredQuestions s1))\<rparr>
                        else
                          let randomQ = unasked ! (rng s1 0 mod length unasked)
                          in s1\<lparr>currentIndex :=
                                  findIndex (\<lambda>q. qid q = qid randomQ) (filteredQuestions s1),
                                rng := (\<lambda>k. rng s1 (Suc k))\<rparr>)
                  else
                    s1\<lparr>currentIndex :=
                         js_succ_mod (currentIndex s1) (length (filteredQuestions s1))\<rparr>)
        in s2\<lparr>historyForward := [], showAnswerFlag := False\<rparr>)"

definition prevQuestion :: "session \<Rightarrow> session" where
  "prevQuestion s =
     (if length (historyBack s) > 0 then
        s\<lparr>historyForward := historyForward s @ [currentIndex s],
          currentIndex := last (historyBack s),
          historyBack := butlast (historyBack s),
          showAnswerFlag := False\<rparr>
      else s)"

text \<open>
  \<open>validateCurrentQuestion\<close> with its default \<open>isBackward = false\<close>. Where
  \<open>currentIndex\<close> addresses no record the condition either short-circuits to false or
  throws on reading a field of \<open>undefined\<close>; the session is unchanged in both cases.
\<close>

definition validateCurrentQuestion :: "session \<Rightarrow> session" where
  "validateCurrentQuestion s =
     (if length (filteredQuestions s) = 0 then s
      else case js_nth (filteredQuestions s) (currentIndex s) of
             None \<Rightarrow> s
           | Some q \<Rightarrow>
               (let f = filters s in
                if (f_bookmarked f = ''Bookmarked'' \<and> \<not> Set_has (bookmarkedQuestions s) (qid q)) \<or>
                   (f_category f \<noteq> ''All'' \<and> category q \<noteq> Some (f_category f)) \<or>
                   (f_subCategory f \<noteq> ''All'' \<and> subCategory q \<noteq> Some (f_subCategory f)) \<or>
                   (f_questionWithAsterisk f = ''Yes'' \<and> questionWithAsterisk q \<noteq> Some ''Yes'') \<or>
                   (f_civicsTestUpdates f = ''Yes'' \<and> civicsTestUpdates q \<noteq> Some ''Yes'')
                then nextQuestion s else s))"

definition toggleBookmark :: "session \<Rightarrow> session" where
  "toggleBookmark s =
     (case js_nth (filteredQuestions s) (currentIndex s) of
        None \<Rightarrow> s
      | Some q \<Rightarrow>
          (let s1 = (if Set_has (bookmarkedQuestions s) (qid q)
                     then s\<lparr>bookmarkedQuestions := Set_delete (qid q) (bookmarkedQuestions s)\<rparr>
                     else s\<lparr>bookmarkedQuestions := Set_add (qid q) (bookmarkedQuestions s)\<rparr>)
           in validateCurrentQuestion (applyFilters (saveBookmarks s1))))"

section \<open>Progress\<close>

record progress =
  total :: nat
  answered :: nat
  percent :: nat

text \<open>
  The arithmetic of \<open>Math.round((answered / total) * 100)\<close> is on IEEE 754 doubles. A
  non-negative double is kept as a fraction of two naturals. \<open>normalize53\<close> scales a
  positive fraction \<open>n / d\<close> by powers of two until \<open>2^52 \<le> n / d < 2^53\<close>, counting
  the exponent; \<open>round_to_double\<close> then rounds the scaled fraction to an integer, ties to
  even, which gives the double nearest to the fraction. This is the rounding of a division
  and of a multiplication in the normal range (no overflow, no subnormal numbers), where
  the quotient of two counts below \<open>2^53\<close> and its hundredfold lie.
\<close>

function normalize53 :: "nat \<Rightarrow> nat \<Rightarrow> int \<Rightarrow> nat \<times> nat \<times> int" where
  "normalize53 n d e =
     (if n = 0 \<or> d = 0 then (n, d, e)
      else if d * (2 * 2 ^ 52) \<le> n then normalize53 n (2 * d) (e + 1)
      else if n < d * 2 ^ 52 then normalize53 (2 * n) d (e - 1)
      else (n, d, e))"
  by pat_completeness auto
termination
proof (relation "measure (\<lambda>(n, d, e). n div (d * (2 * 2 ^ 52)) + (d * 2 ^ 52 - n))", goal_cases)
  case 1
  then show ?case by simp
next
  case (2 n d e)
  have big: "N div (2 * D * (2 * P)) + (2 * D * P - N) < N div (D * (2 * P)) + (D * P - N)"
    if "0 < D" and "D * (2 * P) \<le> N" and "0 < P" for N D P :: nat
  proof -
    let ?k = "D * (2 * P)"
    have k: "0 < ?k" using that by simp
    have "0 < N div ?k" using k that(2) by (simp only: div_greater_zero_iff)
    moreover have "N div (2 * D * (2 * P)) = (N div ?k) div 2"
      by (simp add: div_mult2_eq mult.commute mult.left_commute)
    moreover have "2 * D * P - N = 0" "D * P - N = 0" using that(2) by simp_all
    ultimately show ?thesis by simp
  qed
  from 2 have "0 < d" "d * (2 * 2 ^ 52) \<le> n" "0 < (2::nat) ^ 52" by simp_all
  from big [OF this] show ?case by (simp only: in_measure prod.case)
next
  case (3 n d e)
  have small: "2 * N div (D * (2 * P)) + (D * P - 2 * N) < N div (D * (2 * P)) + (D * P - N)"
    if "0 < N" and "N < D * P" for N D P :: nat
  proof -
    have "2 * N < D * (2 * P)" using that(2) by simp
    then have "2 * N div (D * (2 * P)) = 0" "N div (D * (2 * P)) = 0" by simp_all
    then show ?thesis using that by simp
  qed
  from 3 have "0 < n" "n < d * 2 ^ 52" by simp_all
  from small [OF this] show ?case by (simp only: in_measure prod.case)
qed

declare normalize53.simps [simp del]

definition round_to_double :: "nat \<times> nat \<Rightarrow> nat \<times> nat" where
  "round_to_double x =
     (if fst x = 0 then (0, 1)
      else let (n, d, e) = normalize53 (fst x) (snd x) 0;
               q = n div d;
               r = n mod d;
               m = (if d < 2 * r \<or> (2 * r = d \<and> odd q) then q + 1 else q)
           in if 0 \<le> e then (m * 2 ^ nat e, 1) else (m, 2 ^ nat (- e)))"

text \<open>\<open>x / y\<close> and \<open>x * y\<close> on doubles: the exact result, rounded.\<close>

definition js_div :: "nat \<times> nat \<Rightarrow> nat \<times> nat \<Rightarrow> nat \<times> nat" where
  "js_div x y = round_to_double (fst x * snd y, snd x * fst y)"

definition js_mul :: "nat \<times> nat \<Rightarrow> nat \<times> nat \<Rightarrow> nat \<times> nat" where
  "js_mul x y = round_to_double (fst x * fst y, snd x * snd y)"

text \<open>\<open>Math.round\<close>: the nearest integer, halves rounded up; exact on a double.\<close>

definition Math_round :: "nat \<times> nat \<Rightarrow> nat" where
  "Math_round x = (2 * fst x + snd x) div (2 * snd x)"

text \<open>
  The three numbers \<open>updateProgress\<close> writes to the page:
  \<open>total = filteredQuestions.length\<close>, \<open>answered = answeredQuestions.size\<close> and
  \<open>percent = total ? Math.round((answered / total) * 100) : 0\<close>.
\<close>

definition updateProgress :: "session \<Rightarrow> progress" where
  "updateProgress s =
     (let t = length (filteredQuestions s);
          a = Set_size (answeredQuestions s);
          p = (if t \<noteq> 0 then Math_round (js_mul (js_div (a, 1) (t, 1)) (100, 1)) else 0)
      in \<lparr>total = t, answered = a, percent = p\<rparr>)"

section \<open>Resets, filter changes, import and load\<close>

definition resetFilters :: "session \<Rightarrow> session" where
  "resetFilters s =
     applyFilters (s\<lparr>filters := (filters s)\<lparr>f_category := ''All'', f_subCategory := ''All'',
                                            f_bookmarked := ''All'',
                                            f_questionWithAsterisk := ''All'',
                                            f_civicsTestUpdates := ''All''\<rparr>\<rparr>)"

definition resetProgress :: "session \<Rightarrow> session" where
  "resetProgress s =
     (let s1 = s\<lparr>answeredQuestions := [], currentIndex := Num 0, showAnswerFlag := False\<rparr>;
          s2 = (if f_shuffleUnasked (filters s1)
                then (let (fq, g) = shuffleUnasked (answeredQuestions s1) (filteredQuestions s1) (rng s1)
                      in s1\<lparr>filteredQuestions := fq, rng := g\<rparr>)
                else s1)
      in initHistory s2)"

text \<open>
  The five \<open>select\<close> elements \<open>handleFilterChange\<close> reads, with their current values; the
  handler returns at once when one of them is missing from the page.
\<close>

record selects =
  sel_category :: string
  sel_subCategory :: string
  sel_bookmark :: string
  sel_asterisk :: string
  sel_civics :: string

definition handleFilterChange :: "string option \<Rightarrow> selects option \<Rightarrow> session \<Rightarrow> session" where
  "handleFilterChange target sels s =
     (case sels of
        None \<Rightarrow> s
      | Some d \<Rightarrow>
          (let f = (filters s)\<lparr>f_category := sel_category d, f_subCategory := sel_subCategory d,
                                f_bookmarked := sel_bookmark d,
                                f_questionWithAsterisk := sel_asterisk d,
                                f_civicsTestUpdates := sel_civics d\<rparr>;
               f' = (if target = Some ''category-filter'' then f\<lparr>f_subCategory := ''All''\<rparr> else f)
           in applyFilters (s\<lparr>filters := f'\<rparr>)))"

text \<open>
  What the file reader hands to \<open>handleBookmarkImport\<close>: no file, text that
  \<open>JSON.parse\<close> rejects, a value of the wrong shape, or an object with a \<open>bookmarks\<close>
  array and a \<open>set\<close> that is a string or missing.
\<close>

datatype import_file = NoFile | NotJson | BadShape | Payload "string option" "int list"

datatype import_result = NothingSelected | Imported | SetMismatch | InvalidFormat | ImportFailed

text \<open>\<open>x || "unknown"\<close> on a string or a missing value.\<close>

fun or_unknown :: "string option \<Rightarrow> string" where
  "or_unknown None = ''unknown''"
| "or_unknown (Some v) = (if v = [] then ''unknown'' else v)"

text \<open>
  The two names \<open>handleBookmarkImport\<close> compares:
  \<open>currentSet = CONFIG.SHEET_NAME || "unknown"\<close> and
  \<open>importedSet = imported.set || "unknown"\<close>.
\<close>

definition currentSet :: "session \<Rightarrow> string" where
  "currentSet s = or_unknown (Some (sheetName s))"

definition importedSet :: "string option \<Rightarrow> string" where
  "importedSet pset = or_unknown pset"

definition handleBookmarkImport :: "import_file \<Rightarrow> session \<Rightarrow> import_result \<times> session" where
  "handleBookmarkImport file s =
     (case file of
        NoFile \<Rightarrow> (NothingSelected, s)
      | NotJson \<Rightarrow> (ImportFailed, s)
      | BadShape \<Rightarrow> (InvalidFormat, s)
      | Payload pset bms \<Rightarrow>
          (if importedSet pset \<noteq> currentSet s then (SetMismatch, s)
           else (Imported,
                 applyFilters (saveBookmarks
                   (s\<lparr>bookmarkedQuestions := Set_addAll bms (bookmarkedQuestions s)\<rparr>)))))"

section \<open>Reading a sheet (js/sheets.js)\<close>

text \<open>
  \<open>row[k] || ""\<close> on a row of strings. \<open>String.prototype.trim\<close> and
  \<open>toLowerCase\<close> are the engine's own; the model takes them as the parameters \<open>trim\<close>
  and \<open>lower\<close>, so what is proved holds whatever they strip and map.
\<close>

definition cell :: "string list \<Rightarrow> nat \<Rightarrow> string" where
  "cell row k = (if k < length row then row ! k else [])"

text \<open>
  The callback of \<open>dataRows.map\<close> in \<open>transformSheetsData\<close>, on a row and its index. The
  field \<open>asked\<close> it also fills is read nowhere and is left out of the record.
\<close>

definition transformRow :: "(string \<Rightarrow> string) \<Rightarrow> (string \<Rightarrow> string) \<Rightarrow> nat \<times> string list \<Rightarrow> question" where
  "transformRow trim lower ir =
     (let index = fst ir; row = snd ir
      in \<lparr>qid = int index + 1,
          category = Some (trim (cell row 0)),
          subCategory = Some (trim (cell row 1)),
          questionText = trim (cell row 2),
          answer = trim (cell row 3),
          questionWithAsterisk =
            Some (trim (if cell row 4 \<noteq> [] then cell row 4 else cell row 2)),
          civicsTestUpdates = Some (trim (cell row 5)),
          bookmark = (lower (cell row 6) = ''true'' \<or> cell row 6 = ''1'')\<rparr>)"

text \<open>\<open>transformSheetsData\<close>; \<open>None\<close> is a response without \<open>values\<close>.\<close>

definition transformSheetsData :: "(string \<Rightarrow> string) \<Rightarrow> (string \<Rightarrow> string) \<Rightarrow> string list list option \<Rightarrow> question list" where
  "transformSheetsData trim lower data =
     (case data of
        None \<Rightarrow> []
      | Some rows \<Rightarrow>
          (if length rows < 1 then []
           else let hasHeader = (length rows > 1);
                    dataRows = (if hasHeader then drop 1 rows else rows)
                in filter (\<lambda>item. questionText item \<noteq> [])
                     (map (transformRow trim lower) (enumerate 0 dataRows))))"

section \<open>Loading the question set\<close>

text \<open>
  What \<open>initSheetsDropdown\<close> does to the session: when the selector is on the page and
  the sheet names were fetched (\<open>Some names\<close>), an unset \<open>CONFIG.SHEET_NAME\<close> becomes the
  first name. \<open>None\<close> is a page without selector or a fetch that failed.
\<close>

definition initSheetsDropdown :: "string list option \<Rightarrow> session \<Rightarrow> session" where
  "initSheetsDropdown sheetNames s =
     (case sheetNames of
        None \<Rightarrow> s
      | Some names \<Rightarrow>
          (if sheetName s = [] \<and> length names > 0 then s\<lparr>sheetName := names ! 0\<rparr> else s))"

text \<open>
  How \<open>initSheetsAndData\<close> ends: through its \<open>try\<close>, with the session that results, or
  through its \<open>catch\<close>, which assigns the built-in list to \<open>questions\<close> and shows the
  error. On the second path the other variables are as the interrupted statement left
  them; they are not tracked.
\<close>

datatype load_outcome = Loaded session | LoadFailed "question list"

fun load_failed :: "load_outcome \<Rightarrow> bool" where
  "load_failed (Loaded s) = False"
| "load_failed (LoadFailed qs) = True"

fun loaded_questions :: "load_outcome \<Rightarrow> question list" where
  "loaded_questions (Loaded s) = questions s"
| "loaded_questions (LoadFailed qs) = qs"

text \<open>
  \<open>initSheetsAndData\<close> up to \<open>finally\<close>: \<open>sheetNames\<close> is as above, \<open>sheet\<close> is what
  \<open>loadQuestionsFromSelectedSheet\<close> resolved to, \<open>localJson\<close> the content of
  \<open>data/questions.json\<close> when that fetch succeeded, \<open>mock\<close> the built-in list
  \<open>MOCK_QUESTIONS\<close>, and \<open>throws\<close> says that a statement of the \<open>try\<close> raised an
  exception (a storage or page access that failed). No statement looks at the ids of the
  records. The change handler the function binds afterwards is not part of the call.
\<close>

definition initSheetsAndData :: "question list \<Rightarrow> string list option \<Rightarrow> question list \<Rightarrow> question list option \<Rightarrow> bool \<Rightarrow> session \<Rightarrow> load_outcome" where
  "initSheetsAndData mock sheetNames sheet localJson throws s =
     (if throws then LoadFailed mock
      else
        let s0 = initSheetsDropdown sheetNames s;
            qs0 = sheet;
            qs1 = (if length qs0 = 0 then (case localJson of Some l \<Rightarrow> l | None \<Rightarrow> qs0) else qs0);
            qs2 = (if length qs1 = 0 then mock else qs1);
            s1 = saveBookmarks (s0\<lparr>questions := qs2, bookmarkedQuestions := []\<rparr>)
        in Loaded (resetProgress (resetBookmarks (resetFilters (applyFilters
                     (initializeBookmarks s1))))))"

text \<open>
  The filter of section 4.2 of the specification, in its words: a record is retained when
  it satisfies every active dimension, a dimension set to \<open>All\<close> being inactive.
\<close>

definition spec_active :: "string \<Rightarrow> bool" where
  "spec_active v = (v \<noteq> ''All'')"

definition spec_satisfies :: "filters \<Rightarrow> int list \<Rightarrow> question \<Rightarrow> bool" where
  "spec_satisfies f bm q =
     ((\<not> spec_active (f_category f) \<or> category q = Some (f_category f)) \<and>
      (\<not> spec_active (f_subCategory f) \<or> subCategory q = Some (f_subCategory f)) \<and>
      (\<not> spec_active (f_bookmarked f) \<or> qid q \<in> set bm) \<and>
      (\<not> spec_active (f_questionWithAsterisk f) \<or> questionWithAsterisk q = Some ''Yes'') \<and>
      (\<not> spec_active (f_civicsTestUpdates f) \<or> civicsTestUpdates q = Some ''Yes''))"

text \<open>The values the specification's FilterConfiguration gives the three two-valued dimensions.\<close>

definition spec_config :: "filters \<Rightarrow> bool" where
  "spec_config f =
     ((f_bookmarked f = ''All'' \<or> f_bookmarked f = ''Bookmarked'') \<and>
      (f_questionWithAsterisk f = ''All'' \<or> f_questionWithAsterisk f = ''Yes'') \<and>
      (f_civicsTestUpdates f = ''All'' \<or> f_civicsTestUpdates f = ''Yes''))"

definition all_All :: "filters \<Rightarrow> bool" where
  "all_All f =
     (f_category f = ''All'' \<and> f_subCategory f = ''All'' \<and> f_bookmarked f = ''All'' \<and>
      f_questionWithAsterisk f = ''All'' \<and> f_civicsTestUpdates f = ''All'')"

text \<open>
  The progress statistics of section 4.4 of the specification, in its words: the answered
  count is taken over the records of the view.
\<close>

definition spec_stats :: "question list \<Rightarrow> int list \<Rightarrow> progress" where
  "spec_stats view answeredIds =
     (let t = length view;
          a = length (filter (\<lambda>q. qid q \<in> set answeredIds) view);
          p = (if t > 0 then (200 * a + t) div (2 * t) else 0)
      in \<lparr>total = t, answered = a, percent = p\<rparr>)"

text \<open>
  The index the specification's ChangeFilter asks for: the position in the new view of the
  record that was current, found by its id, and 0 when it is no longer there.
\<close>

definition spec_index_after :: "session \<Rightarrow> question list \<Rightarrow> jsnum" where
  "spec_index_after old newView =
     (case js_nth (filteredQuestions old) (currentIndex old) of
        None \<Rightarrow> Num 0
      | Some q \<Rightarrow> (if qid q \<in> set (map qid newView)
                   then findIndex (\<lambda>q'. qid q' = qid q) newView
                   else Num 0))"

text \<open>
  When the specification's \<open>QuestionStore.load\<close> fails with \<open>InvalidDataError\<close>: two
  records share an id, or the list is empty and the caller has no fallback.
\<close>

definition spec_load_fails :: "question list \<Rightarrow> bool \<Rightarrow> bool" where
  "spec_load_fails records hasFallback =
     (\<not> distinct (map qid records) \<or> (records = [] \<and> \<not> hasFallback))"

text \<open>
  The state of a session \<open>t\<close> between two reveal-and-move pairs, \<open>m\<close> pairs after the
  session \<open>s\<close>: same view and filters, nothing to replay, answer hidden, position
  \<open>m mod N\<close>.
\<close>

definition nav_inv :: "session \<Rightarrow> nat \<Rightarrow> session \<Rightarrow> bool" where
  "nav_inv s m t =
     (filteredQuestions t = filteredQuestions s \<and> filters t = filters s \<and>
      historyForward t = [] \<and> \<not> showAnswerFlag t \<and>
      currentIndex t = Num (int (m mod length (filteredQuestions s))))"

section \<open>An example session\<close>

text \<open>
  Three records and the session \<open>applyFilters\<close> leaves after they are loaded with the
  initial value of \<open>filters\<close>; the sheet is called \<open>2020\<close>.
\<close>

definition qA :: question where
  "qA = \<lparr>qid = 1, category = Some ''History'', subCategory = Some ''Colonial'',
         questionText = ''Q1'', answer = ''A1'', questionWithAsterisk = Some ''No'',
         civicsTestUpdates = Some ''No'', bookmark = False\<rparr>"

definition qB :: question where
  "qB = \<lparr>qid = 2, category = Some ''Geography'', subCategory = Some ''Rivers'',
         questionText = ''Q2'', answer = ''A2'', questionWithAsterisk = Some ''Yes'',
         civicsTestUpdates = Some ''No'', bookmark = False\<rparr>"

definition qC :: question where
  "qC = \<lparr>qid = 3, category = Some ''Geography'', subCategory = Some ''States'',
         questionText = ''Q3'', answer = ''A3'', questionWithAsterisk = Some ''No'',
         civicsTestUpdates = Some ''Yes'', bookmark = False\<rparr>"

definition initialFilters :: filters where
  "initialFilters = \<lparr>f_category = ''All'', f_subCategory = ''All'', f_bookmarked = ''All'',
                      f_questionWithAsterisk = ''All'', f_civicsTestUpdates = ''All'',
                      f_shuffleUnasked = False\<rparr>"

definition session0 :: session where
  "session0 = \<lparr>questions = [qA, qB, qC], filteredQuestions = [qA, qB, qC],
               currentIndex = Num 0, historyBack = [Num 0], historyForward = [],
               showAnswerFlag = False, answeredQuestions = [], bookmarkedQuestions = [],
               filters = initialFilters, sheetName = ''2020'', storedBookmarks = None,
               rng = (\<lambda>k. k)\<rparr>"

text \<open>A fourth record that repeats the id of the first.\<close>

definition qD :: question where
  "qD = \<lparr>qid = 1, category = Some ''Symbols'', subCategory = Some ''Flag'',
         questionText = ''Q4'', answer = ''A4'', questionWithAsterisk = Some ''No'',
         civicsTestUpdates = Some ''No'', bookmark = False\<rparr>"

text \<open>The page's five selects with only the category chosen.\<close>

definition selectCategory :: "string \<Rightarrow> selects" where
  "selectCategory c = \<lparr>sel_category = c, sel_subCategory = ''All'', sel_bookmark = ''All'',
                        sel_asterisk = ''All'', sel_civics = ''All''\<rparr>"

lemmas example_defs = qA_def qB_def qC_def qD_def initialFilters_def session0_def selectCategory_def

section \<open>Filtering\<close>

lemma keeps_spec_satisfies:
  assumes "spec_config f"
  shows "keeps f bm q = spec_satisfies f bm q"
  using assms
  by (auto simp: keeps_def spec_satisfies_def spec_config_def spec_active_def Set_has_def)

lemma filteredQuestions_applyFilters_noshuffle:
  "\<not> f_shuffleUnasked (filters s) \<Longrightarrow>
   filteredQuestions (applyFilters s) = filter (keeps (filters s) (bookmarkedQuestions s)) (questions s)"
  by (simp add: applyFilters_def initHistory_def Let_def)

text \<open>
  C1. With \<open>shuffleUnasked\<close> off, \<open>applyFilters\<close> leaves in \<open>filteredQuestions\<close> exactly the
  records of \<open>questions\<close> that satisfy every active dimension, in their original order
  (the result is the input filtered by the specification's predicate, so nothing violating
  it appears, nothing satisfying it is dropped, and it is a subsequence of the input); when
  every dimension is \<open>All\<close> the result is the input list.
\<close>

theorem applyFilters_exact:
  assumes "spec_config (filters s)" and "\<not> f_shuffleUnasked (filters s)"
  shows "filteredQuestions (applyFilters s)
           = filter (spec_satisfies (filters s) (bookmarkedQuestions s)) (questions s)
         \<and> set (filteredQuestions (applyFilters s))
           = {q \<in> set (questions s). spec_satisfies (filters s) (bookmarkedQuestions s) q}
         \<and> (all_All (filters s) \<longrightarrow> filteredQuestions (applyFilters s) = questions s)"
proof -
  have eq: "keeps (filters s) (bookmarkedQuestions s) = spec_satisfies (filters s) (bookmarkedQuestions s)"
    using keeps_spec_satisfies [OF assms(1)] by (intro ext)
  have fq: "filteredQuestions (applyFilters s)
              = filter (spec_satisfies (filters s) (bookmarkedQuestions s)) (questions s)"
    using filteredQuestions_applyFilters_noshuffle [OF assms(2)] eq by simp
  have allc: "all_All (filters s) \<Longrightarrow> spec_satisfies (filters s) (bookmarkedQuestions s) q" for q
    by (simp add: all_All_def spec_satisfies_def spec_active_def)
  from fq allc show ?thesis by auto
qed

theorem applyFilters_exact_witness:
  "filteredQuestions
     (applyFilters (session0\<lparr>filters := initialFilters\<lparr>f_category := ''Geography''\<rparr>\<rparr>))
   = [qB, qC]"
proof -
  let ?s = "session0\<lparr>filters := initialFilters\<lparr>f_category := ''Geography''\<rparr>\<rparr>"
  have a: "spec_config (filters ?s)"
    by (simp add: spec_config_def example_defs)
  have b: "\<not> f_shuffleUnasked (filters ?s)"
    by (simp add: example_defs)
  from applyFilters_exact [OF a b]
  have "filteredQuestions (applyFilters ?s)
          = filter (spec_satisfies (filters ?s) (bookmarkedQuestions ?s)) (questions ?s)"
    by simp
  also have "\<dots> = [qB, qC]"
    by (simp add: spec_satisfies_def spec_active_def example_defs)
  finally show ?thesis .
qed

section \<open>Shuffling the unasked questions\<close>

lemma length_shuffle_loop: "length (fst (shuffle_loop i a g)) = length a"
  by (induction i arbitrary: a g) (simp_all add: Let_def)

lemma mset_shuffle_loop:
  "i < length a \<Longrightarrow> mset (fst (shuffle_loop i a g)) = mset a"
proof (induction i arbitrary: a g)
  case 0
  then show ?case by simp
next
  case (Suc i)
  let ?j = "g 0 mod (Suc i + 1)"
  have "?j < Suc i + 1" by (rule mod_less_divisor) simp
  with Suc.prems have j: "?j < length a" by linarith
  have sw: "mset (a[Suc i := a ! ?j, ?j := a ! Suc i]) = mset a"
    using mset_swap [OF j Suc.prems] by simp
  have "i < length (a[Suc i := a ! ?j, ?j := a ! Suc i])" using Suc.prems by simp
  from Suc.IH [OF this] sw show ?case by (simp add: Let_def)
qed

lemma mset_shuffleArray: "mset (fst (shuffleArray arr g)) = mset arr"
proof (cases arr)
  case Nil
  then show ?thesis by (simp add: shuffleArray_def)
next
  case (Cons x xs)
  then have "length arr - 1 < length arr" by simp
  then show ?thesis unfolding shuffleArray_def by (rule mset_shuffle_loop)
qed

lemma length_shuffleArray: "length (fst (shuffleArray arr g)) = length arr"
  by (simp add: shuffleArray_def length_shuffle_loop)

lemma shuffleUnasked_split:
  "fst (shuffleUnasked A xs g)
     = fst (shuffleArray (filter (\<lambda>q. \<not> Set_has A (qid q)) xs) g)
       @ filter (\<lambda>q. Set_has A (qid q)) xs"
  by (simp add: shuffleUnasked_def Let_def split: prod.splits)

text \<open>
  C2. \<open>shuffleUnasked\<close> returns a permutation of its input. With \<open>n\<close> the number of
  records whose id is not in the answered set, the part of the result after the first \<open>n\<close>
  records is the list of answered records of the input in their input order, and the first
  \<open>n\<close> records are the unanswered records of the input in some order. This holds for
  every outcome of the random draws.
\<close>

theorem shuffleUnasked_permutation:
  "mset (fst (shuffleUnasked A xs g)) = mset xs
   \<and> drop (length (filter (\<lambda>q. qid q \<notin> set A) xs)) (fst (shuffleUnasked A xs g))
       = filter (\<lambda>q. qid q \<in> set A) xs
   \<and> mset (take (length (filter (\<lambda>q. qid q \<notin> set A) xs)) (fst (shuffleUnasked A xs g)))
       = mset (filter (\<lambda>q. qid q \<notin> set A) xs)"
proof -
  let ?un = "filter (\<lambda>q. qid q \<notin> set A) xs"
  let ?pre = "fst (shuffleArray ?un g)"
  have res: "fst (shuffleUnasked A xs g) = ?pre @ filter (\<lambda>q. qid q \<in> set A) xs"
    using shuffleUnasked_split [of A xs g] by (simp add: Set_has_def)
  have len: "length ?pre = length ?un"
    by (rule length_shuffleArray)
  have pre: "mset ?pre = mset ?un"
    by (rule mset_shuffleArray)
  have "mset (fst (shuffleUnasked A xs g)) = mset xs"
    unfolding res using pre by simp
  moreover have "drop (length ?un) (fst (shuffleUnasked A xs g)) = filter (\<lambda>q. qid q \<in> set A) xs"
    unfolding res using len by simp
  moreover have "mset (take (length ?un) (fst (shuffleUnasked A xs g))) = mset ?un"
    unfolding res using len pre by simp
  ultimately show ?thesis by blast
qed

theorem shuffleUnasked_permutation_witness:
  "drop 2 (fst (shuffleUnasked [2] [qA, qB, qC] (\<lambda>k. k))) = [qB]
   \<and> mset (take 2 (fst (shuffleUnasked [2] [qA, qB, qC] (\<lambda>k. k)))) = {#qA, qC#}"
proof -
  have u: "filter (\<lambda>q. qid q \<notin> set [2]) [qA, qB, qC] = [qA, qC]"
    by (simp add: example_defs)
  have f: "filter (\<lambda>q. qid q \<in> set [2]) [qA, qB, qC] = [qB]"
    by (simp add: example_defs)
  have n: "length [qA, qC] = 2"
    by simp
  from shuffleUnasked_permutation [of "[2]" "[qA, qB, qC]" "\<lambda>k. k", unfolded u f n]
  show ?thesis by simp
qed

section \<open>Navigation\<close>

lemma js_rem_nonneg [simp]: "0 \<le> a \<Longrightarrow> js_rem a b = a mod b"
  by (simp add: js_rem_def)

lemma nextQuestion_reveal:
  assumes "\<not> showAnswerFlag s" and "filteredQuestions s \<noteq> []"
  shows "nextQuestion s
           = markAnswered (js_nth (filteredQuestions s) (currentIndex s)) (s\<lparr>showAnswerFlag := True\<rparr>)"
  using assms by (simp add: nextQuestion_def toggleAnswer_def Let_def)

lemma nextQuestion_replay:
  assumes "showAnswerFlag s" and "historyForward s \<noteq> []"
  shows "nextQuestion s
           = s\<lparr>historyBack := historyBack s @ [currentIndex s],
               currentIndex := last (historyForward s),
               historyForward := butlast (historyForward s),
               showAnswerFlag := False\<rparr>"
  using assms by (simp add: nextQuestion_def)

lemma nextQuestion_sequential:
  assumes "showAnswerFlag s" and "historyForward s = []" and "\<not> f_shuffleUnasked (filters s)"
  shows "nextQuestion s
           = s\<lparr>historyBack := historyBack s @ [currentIndex s],
               currentIndex := js_succ_mod (currentIndex s) (length (filteredQuestions s)),
               historyForward := [], showAnswerFlag := False\<rparr>"
  using assms by (simp add: nextQuestion_def Let_def)

lemma markAnswered_fields [simp]:
  "filteredQuestions (markAnswered q s) = filteredQuestions s"
  "currentIndex (markAnswered q s) = currentIndex s"
  "historyBack (markAnswered q s) = historyBack s"
  "historyForward (markAnswered q s) = historyForward s"
  "showAnswerFlag (markAnswered q s) = showAnswerFlag s"
  "filters (markAnswered q s) = filters s"
  "bookmarkedQuestions (markAnswered q s) = bookmarkedQuestions s"
  by (simp_all add: markAnswered_def split: option.splits)

lemma filteredQuestions_nextQuestion [simp]:
  "filteredQuestions (nextQuestion s) = filteredQuestions s"
  by (simp add: nextQuestion_def toggleAnswer_def Let_def)

lemma filters_nextQuestion [simp]: "filters (nextQuestion s) = filters s"
  by (simp add: nextQuestion_def toggleAnswer_def Let_def)

lemma nav_inv_step:
  assumes ne: "filteredQuestions s \<noteq> []" and ns: "\<not> f_shuffleUnasked (filters s)"
    and inv: "nav_inv s m t"
  shows "nav_inv s (Suc m) (nextQuestion (nextQuestion t))"
proof -
  let ?N = "length (filteredQuestions s)"
  let ?r = "nextQuestion t"
  from inv have t: "filteredQuestions t = filteredQuestions s" "filters t = filters s"
    "historyForward t = []" "\<not> showAnswerFlag t" "currentIndex t = Num (int (m mod ?N))"
    by (simp_all add: nav_inv_def)
  have r: "?r = markAnswered (js_nth (filteredQuestions t) (currentIndex t)) (t\<lparr>showAnswerFlag := True\<rparr>)"
    using nextQuestion_reveal [of t] t ne by simp
  have rf: "showAnswerFlag ?r" "historyForward ?r = []" "\<not> f_shuffleUnasked (filters ?r)"
    "currentIndex ?r = Num (int (m mod ?N))" "filteredQuestions ?r = filteredQuestions s"
    using t ns by (simp_all add: r)
  have N: "?N \<noteq> 0" using ne by simp
  have "(int (m mod ?N) + 1) mod int ?N = int (Suc m mod ?N)"
    by (metis Suc_eq_plus1 mod_Suc_eq of_nat_Suc of_nat_mod add.commute)
  then have "js_succ_mod (currentIndex ?r) (length (filteredQuestions ?r)) = Num (int (Suc m mod ?N))"
    using rf N by simp
  then show ?thesis
    using nextQuestion_sequential [OF rf(1) rf(2) rf(3)] rf t
    by (simp add: nav_inv_def)
qed

lemma nav_inv_funpow:
  assumes ne: "filteredQuestions s \<noteq> []" and ns: "\<not> f_shuffleUnasked (filters s)"
    and fl: "\<not> showAnswerFlag s" and ci: "currentIndex s = Num 0" and hf: "historyForward s = []"
  shows "nav_inv s m ((nextQuestion ^^ (2 * m)) s)"
proof (induction m)
  case 0
  then show ?case using fl ci hf by (simp add: nav_inv_def)
next
  case (Suc m)
  from nav_inv_step [OF ne ns Suc.IH] show ?case by simp
qed

text \<open>
  C3. From a non-empty view of size \<open>N\<close>, with shuffle off, the answer hidden, position 0
  and nothing to replay (the state \<open>applyFilters\<close> leaves at position 0), after \<open>2 * m\<close>
  calls of \<open>nextQuestion\<close> the position is \<open>m mod N\<close> with the answer hidden; the next
  (odd-numbered) call reveals: it sets \<open>showAnswerFlag\<close>, adds the id of the record at
  that position to \<open>answeredQuestions\<close> (the set gains exactly that id, appended when it
  is new) and leaves \<open>currentIndex\<close>; the call after it
  (even-numbered) moves to \<open>(currentIndex + 1) mod N\<close> with the answer hidden. So \<open>2 * N\<close>
  calls visit 0, 1, ..., N - 1 in reveal-then-move pairs.
\<close>

theorem nextQuestion_round_robin:
  assumes ne: "filteredQuestions s \<noteq> []" and ns: "\<not> f_shuffleUnasked (filters s)"
    and fl: "\<not> showAnswerFlag s" and ci: "currentIndex s = Num 0" and hf: "historyForward s = []"
  shows "let N = length (filteredQuestions s);
             before = (nextQuestion ^^ (2 * m)) s;
             revealed = nextQuestion before;
             moved = nextQuestion revealed
         in currentIndex before = Num (int (m mod N)) \<and> \<not> showAnswerFlag before
          \<and> currentIndex revealed = currentIndex before \<and> showAnswerFlag revealed
          \<and> set (answeredQuestions revealed)
              = insert (qid (filteredQuestions s ! (m mod N))) (set (answeredQuestions before))
          \<and> answeredQuestions revealed
              = (if qid (filteredQuestions s ! (m mod N)) \<in> set (answeredQuestions before)
                 then answeredQuestions before
                 else answeredQuestions before @ [qid (filteredQuestions s ! (m mod N))])
          \<and> currentIndex moved = Num ((int (m mod N) + 1) mod int N) \<and> \<not> showAnswerFlag moved"
proof -
  let ?N = "length (filteredQuestions s)"
  let ?b = "(nextQuestion ^^ (2 * m)) s"
  let ?r = "nextQuestion ?b"
  let ?m = "nextQuestion ?r"
  have N: "?N \<noteq> 0" "m mod ?N < ?N" using ne by simp_all
  from nav_inv_funpow [OF assms, of m]
  have b: "filteredQuestions ?b = filteredQuestions s" "filters ?b = filters s"
    "historyForward ?b = []" "\<not> showAnswerFlag ?b" "currentIndex ?b = Num (int (m mod ?N))"
    by (simp_all add: nav_inv_def)
  have r: "?r = markAnswered (js_nth (filteredQuestions ?b) (currentIndex ?b)) (?b\<lparr>showAnswerFlag := True\<rparr>)"
    using nextQuestion_reveal [of ?b] b ne by simp
  have nth: "js_nth (filteredQuestions ?b) (currentIndex ?b) = Some (filteredQuestions s ! (m mod ?N))"
    using b N by simp
  have rf: "showAnswerFlag ?r" "currentIndex ?r = currentIndex ?b"
    "answeredQuestions ?r = Set_add (qid (filteredQuestions s ! (m mod ?N))) (answeredQuestions ?b)"
    unfolding r nth by (simp_all add: markAnswered_def)
  have rs: "set (answeredQuestions ?r)
              = insert (qid (filteredQuestions s ! (m mod ?N))) (set (answeredQuestions ?b))"
    unfolding rf(3) by (auto simp: Set_add_def)
  have rl: "answeredQuestions ?r
              = (if qid (filteredQuestions s ! (m mod ?N)) \<in> set (answeredQuestions ?b)
                 then answeredQuestions ?b
                 else answeredQuestions ?b @ [qid (filteredQuestions s ! (m mod ?N))])"
    unfolding rf(3) by (simp add: Set_add_def)
  from nav_inv_funpow [OF assms, of "Suc m"]
  have m1: "currentIndex ?m = Num (int (Suc m mod ?N))" "\<not> showAnswerFlag ?m"
    by (simp_all add: nav_inv_def)
  have "(int (m mod ?N) + 1) mod int ?N = int (Suc m mod ?N)"
    by (metis Suc_eq_plus1 mod_Suc_eq of_nat_Suc of_nat_mod add.commute)
  with m1 have m2: "currentIndex ?m = Num ((int (m mod ?N) + 1) mod int ?N)" by simp
  show ?thesis
    unfolding Let_def using b(4,5) rf(1,2) rs rl m2 m1(2) by blast
qed

lemma session0_start: "filteredQuestions session0 \<noteq> []" "\<not> f_shuffleUnasked (filters session0)"
   "\<not> showAnswerFlag session0" "currentIndex session0 = Num 0" "historyForward session0 = []"
  by (simp_all add: example_defs)

theorem nextQuestion_round_robin_witness:
  "currentIndex ((nextQuestion ^^ 4) session0) = Num 2
   \<and> set (answeredQuestions (nextQuestion ((nextQuestion ^^ 4) session0)))
       = insert 3 (set (answeredQuestions ((nextQuestion ^^ 4) session0)))
   \<and> 3 \<in> set (answeredQuestions (nextQuestion ((nextQuestion ^^ 4) session0)))
   \<and> currentIndex (nextQuestion (nextQuestion ((nextQuestion ^^ 4) session0))) = Num 0"
proof -
  have len: "length (filteredQuestions session0) = 3" by (simp add: example_defs)
  have m: "(2::nat) mod 3 = 2" by simp
  have q: "qid (filteredQuestions session0 ! 2) = 3" by (simp add: example_defs)
  have e: "(2::nat) * 2 = 4" by simp
  note th = nextQuestion_round_robin [OF session0_start, of 2, unfolded Let_def len e m q]
  from th have i4: "currentIndex ((nextQuestion ^^ 4) session0) = Num (int 2)"
    by blast
  from th have ans: "set (answeredQuestions (nextQuestion ((nextQuestion ^^ 4) session0)))
                       = insert 3 (set (answeredQuestions ((nextQuestion ^^ 4) session0)))"
    by blast
  from th have i6: "currentIndex (nextQuestion (nextQuestion ((nextQuestion ^^ 4) session0)))
                      = Num ((int 2 + 1) mod int 3)"
    by blast
  from ans have mem: "3 \<in> set (answeredQuestions (nextQuestion ((nextQuestion ^^ 4) session0)))"
    by blast
  from i4 have j4: "currentIndex ((nextQuestion ^^ 4) session0) = Num 2"
    by simp
  from i6 have j6: "currentIndex (nextQuestion (nextQuestion ((nextQuestion ^^ 4) session0))) = Num 0"
    by simp
  from j4 ans mem j6 show ?thesis by blast
qed

lemma prevQuestion_after_advance:
  assumes "showAnswerFlag s"
  shows "currentIndex (prevQuestion (nextQuestion s)) = currentIndex s"
    and "\<not> showAnswerFlag (prevQuestion (nextQuestion s))"
    and "historyForward (prevQuestion (nextQuestion s)) \<noteq> []"
    and "last (historyForward (prevQuestion (nextQuestion s))) = currentIndex (nextQuestion s)"
    and "filteredQuestions (prevQuestion (nextQuestion s)) = filteredQuestions s"
  using assms by (simp_all add: nextQuestion_def prevQuestion_def Let_def)

text \<open>
  C4 (as amended). From a state with a non-empty view in which the answer is shown (so that
  \<open>nextQuestion\<close> moves), \<open>prevQuestion\<close> right after \<open>nextQuestion\<close> restores the
  \<open>currentIndex\<close> held before that \<open>nextQuestion\<close> and hides the answer. The next call of
  \<open>nextQuestion\<close> only reveals the answer and stays; the call after it replays the forward
  step and restores the index that was current before the back-step.
\<close>

theorem prevQuestion_restores_then_replay:
  assumes fl: "showAnswerFlag s" and ne: "filteredQuestions s \<noteq> []"
  shows "let s1 = nextQuestion s; s2 = prevQuestion s1; s3 = nextQuestion s2; s4 = nextQuestion s3
         in currentIndex s2 = currentIndex s \<and> \<not> showAnswerFlag s2
          \<and> currentIndex s3 = currentIndex s \<and> showAnswerFlag s3
          \<and> currentIndex s4 = currentIndex s1 \<and> \<not> showAnswerFlag s4"
proof -
  let ?s1 = "nextQuestion s"
  let ?s2 = "prevQuestion ?s1"
  let ?s3 = "nextQuestion ?s2"
  let ?s4 = "nextQuestion ?s3"
  note p = prevQuestion_after_advance [OF fl]
  have ne2: "filteredQuestions ?s2 \<noteq> []" using p(5) ne by simp
  have s3: "?s3 = markAnswered (js_nth (filteredQuestions ?s2) (currentIndex ?s2))
                    (?s2\<lparr>showAnswerFlag := True\<rparr>)"
    by (rule nextQuestion_reveal [OF p(2) ne2])
  have s3f: "currentIndex ?s3 = currentIndex s" "showAnswerFlag ?s3"
    "historyForward ?s3 = historyForward ?s2"
    unfolding s3 using p(1) by simp_all
  have hf3: "historyForward ?s3 \<noteq> []" using s3f(3) p(3) by simp
  have s4: "currentIndex ?s4 = last (historyForward ?s3)" "\<not> showAnswerFlag ?s4"
    using nextQuestion_replay [OF s3f(2) hf3] by simp_all
  have "currentIndex ?s4 = currentIndex ?s1" using s4(1) s3f(3) p(4) by simp
  then show ?thesis unfolding Let_def using p(1,2) s3f(1,2) s4(2) by blast
qed

lemma session0_revealed:
  "showAnswerFlag (nextQuestion session0)"
  "filteredQuestions (nextQuestion session0) \<noteq> []"
  "currentIndex (nextQuestion session0) = Num 0"
  "currentIndex (nextQuestion (nextQuestion session0)) = Num 1"
  by (simp_all add: nextQuestion_def toggleAnswer_def markAnswered_def Let_def example_defs)

theorem prevQuestion_restores_then_replay_witness:
  "currentIndex (prevQuestion (nextQuestion (nextQuestion session0))) = Num 0
   \<and> \<not> showAnswerFlag (prevQuestion (nextQuestion (nextQuestion session0)))
   \<and> currentIndex (nextQuestion (nextQuestion (prevQuestion (nextQuestion (nextQuestion session0)))))
       = Num 1"
  using prevQuestion_restores_then_replay [OF session0_revealed(1) session0_revealed(2)]
  unfolding Let_def session0_revealed(3) session0_revealed(4)
  by blast

text \<open>
  The claim as written fails: after reveal, move (0 to 1) and back (to 0), one further
  call of \<open>nextQuestion\<close> leaves the index at 0 instead of restoring 1.
\<close>

theorem single_replay_counterexample:
  "showAnswerFlag (nextQuestion session0)
   \<and> currentIndex (nextQuestion (nextQuestion session0)) \<noteq> currentIndex (nextQuestion session0)
   \<and> currentIndex (nextQuestion (prevQuestion (nextQuestion (nextQuestion session0))))
       \<noteq> currentIndex (nextQuestion (nextQuestion session0))"
  by (simp add: nextQuestion_def prevQuestion_def toggleAnswer_def markAnswered_def Let_def
        example_defs)

section \<open>Progress\<close>

lemma applyFilters_fields [simp]:
  "filters (applyFilters s) = filters s"
  "questions (applyFilters s) = questions s"
  "bookmarkedQuestions (applyFilters s) = bookmarkedQuestions s"
  "answeredQuestions (applyFilters s) = answeredQuestions s"
  "sheetName (applyFilters s) = sheetName s"
  "storedBookmarks (applyFilters s) = storedBookmarks s"
  "showAnswerFlag (applyFilters s) = False"
  "historyForward (applyFilters s) = []"
  "historyBack (applyFilters s) = [currentIndex (applyFilters s)]"
  by (simp_all add: applyFilters_def initHistory_def Let_def split: prod.splits)

lemma session0_filters: "filters session0 = initialFilters"
  by (simp add: session0_def)

lemma answered_two_of_three:
  "answeredQuestions (nextQuestion (nextQuestion (nextQuestion session0))) = [1, 2]"
  "questions (nextQuestion (nextQuestion (nextQuestion session0))) = [qA, qB, qC]"
  "bookmarkedQuestions (nextQuestion (nextQuestion (nextQuestion session0))) = []"
  by (simp_all add: nextQuestion_def toggleAnswer_def markAnswered_def Set_add_def Let_def
        example_defs)

lemma updateProgress_fields:
  "total (updateProgress s) = length (filteredQuestions s)"
  "answered (updateProgress s) = Set_size (answeredQuestions s)"
  "percent (updateProgress s)
     = (if filteredQuestions s \<noteq> []
        then Math_round (js_mul (js_div (Set_size (answeredQuestions s), 1)
                                        (length (filteredQuestions s), 1)) (100, 1))
        else 0)"
  by (simp_all add: updateProgress_def Let_def)

text \<open>
  Doubles are not the rationals: 23 answered of 40 is 57 percent in the code, where exact
  rounding of 57.5 gives 58; 2 of 1 is 200 percent.
\<close>

lemma percent_23_of_40:
  "Math_round (js_mul (js_div (23, 1) (40, 1)) (100, 1)) = 57"
  by (simp add: Math_round_def js_mul_def js_div_def round_to_double_def Let_def
        normalize53.simps)

lemma percent_2_of_1:
  "Math_round (js_mul (js_div (2, 1) (1, 1)) (100, 1)) = 200"
  by (simp add: Math_round_def js_mul_def js_div_def round_to_double_def Let_def
        normalize53.simps)

text \<open>
  C5. The claim asks for the number of records of the view that are answered.
  \<open>updateProgress\<close> takes \<open>answeredQuestions.size\<close>, the number of all answered ids: in
  the example session, after the first two records are revealed and the category filter is
  set to \<open>History\<close>, the view holds one record and the code reports 2 answered of 1 and
  200 percent, where the specification's statistics are 1 of 1 and 100 percent.
\<close>

theorem updateProgress_counts_all_answered_ids:
  "updateProgress
     (handleFilterChange (Some ''category-filter'') (Some (selectCategory ''History''))
        (nextQuestion (nextQuestion (nextQuestion session0))))
   = \<lparr>total = 1, answered = 2, percent = 200\<rparr>
   \<and> spec_stats
        (filteredQuestions
           (handleFilterChange (Some ''category-filter'') (Some (selectCategory ''History''))
              (nextQuestion (nextQuestion (nextQuestion session0)))))
        (answeredQuestions
           (handleFilterChange (Some ''category-filter'') (Some (selectCategory ''History''))
              (nextQuestion (nextQuestion (nextQuestion session0)))))
   = \<lparr>total = 1, answered = 1, percent = 100\<rparr>"
proof -
  let ?s = "nextQuestion (nextQuestion (nextQuestion session0))"
  let ?t = "handleFilterChange (Some ''category-filter'') (Some (selectCategory ''History'')) ?s"
  have fq: "filteredQuestions ?t = [qA]"
    by (simp add: handleFilterChange_def applyFilters_def initHistory_def keeps_def Let_def
          answered_two_of_three session0_filters initialFilters_def selectCategory_def
          qA_def qB_def qC_def)
  have an: "answeredQuestions ?t = [1, 2]"
    by (simp add: handleFilterChange_def Let_def answered_two_of_three)
  have l: "length (filteredQuestions ?t) = 1"
    by (simp add: fq)
  have z: "Set_size (answeredQuestions ?t) = 2"
    by (simp add: an Set_size_def)
  have up: "updateProgress ?t = \<lparr>total = 1, answered = 2, percent = 200\<rparr>"
    unfolding updateProgress_def Let_def l z percent_2_of_1 by simp
  have sp: "spec_stats (filteredQuestions ?t) (answeredQuestions ?t)
              = \<lparr>total = 1, answered = 1, percent = 100\<rparr>"
    by (simp add: spec_stats_def Let_def fq an qA_def)
  from up sp show ?thesis by blast
qed

section \<open>The position after a filter change\<close>

lemma js_nth_Nil: "js_nth [] i = None"
  by (cases i) simp_all

lemma js_nth_mem: "js_nth xs i = Some q \<Longrightarrow> q \<in> set xs"
  by (cases i) (auto split: if_splits)

lemma currentIndex_applyFilters:
  "currentIndex (applyFilters s)
     = (case js_nth (filteredQuestions (applyFilters s)) (currentIndex s) of
          None \<Rightarrow> Num 0 | Some q \<Rightarrow> currentIndex s)"
  by (auto simp: applyFilters_def initHistory_def Let_def js_nth_Nil
           split: prod.splits option.splits dest: js_nth_mem)

text \<open>
  C6 (as amended). After \<open>applyFilters\<close> has recomputed the view: when the old
  \<open>currentIndex\<close> addresses no record of the new view (the view is empty or shorter),
  \<open>currentIndex\<close> is 0; when the record that was current is still in the new view and the
  old \<open>currentIndex\<close> still addresses a record of it, \<open>currentIndex\<close> is unchanged (it is
  not moved to the record's new position). The answer is hidden in every case.
\<close>

theorem applyFilters_index:
  "(js_nth (filteredQuestions (applyFilters s)) (currentIndex s) = None
      \<longrightarrow> currentIndex (applyFilters s) = Num 0)
   \<and> (\<forall>q. js_nth (filteredQuestions s) (currentIndex s) = Some q
           \<and> q \<in> set (filteredQuestions (applyFilters s))
           \<and> js_nth (filteredQuestions (applyFilters s)) (currentIndex s) \<noteq> None
      \<longrightarrow> currentIndex (applyFilters s) = currentIndex s)
   \<and> \<not> showAnswerFlag (applyFilters s)"
  using currentIndex_applyFilters [of s] by (auto split: option.splits)

lemma session0_view: "filteredQuestions session0 = [qA, qB, qC]"
  by (simp add: session0_def)

lemma session0_moved:
  "questions (nextQuestion (nextQuestion session0)) = [qA, qB, qC]"
  "filteredQuestions (nextQuestion (nextQuestion session0)) = [qA, qB, qC]"
  "bookmarkedQuestions (nextQuestion (nextQuestion session0)) = []"
  "currentIndex (nextQuestion (nextQuestion session0)) = Num 1"
  by (simp_all add: nextQuestion_def toggleAnswer_def markAnswered_def Let_def example_defs)

lemma view_after_category:
  "filteredQuestions
     (applyFilters (nextQuestion (nextQuestion session0)
        \<lparr>filters := initialFilters\<lparr>f_category := ''History''\<rparr>\<rparr>)) = [qA]"
  "filteredQuestions
     (applyFilters (nextQuestion (nextQuestion session0)
        \<lparr>filters := initialFilters\<lparr>f_category := ''Geography''\<rparr>\<rparr>)) = [qB, qC]"
  by (simp_all add: applyFilters_def initHistory_def keeps_def Let_def session0_moved
        initialFilters_def qA_def qB_def qC_def)

theorem applyFilters_index_witness:
  "currentIndex
     (applyFilters (nextQuestion (nextQuestion session0)
        \<lparr>filters := initialFilters\<lparr>f_category := ''History''\<rparr>\<rparr>)) = Num 0
   \<and> currentIndex
     (applyFilters (nextQuestion (nextQuestion session0)
        \<lparr>filters := initialFilters\<lparr>f_category := ''Geography''\<rparr>\<rparr>)) = Num 1"
proof -
  let ?h = "nextQuestion (nextQuestion session0)\<lparr>filters := initialFilters\<lparr>f_category := ''History''\<rparr>\<rparr>"
  let ?g = "nextQuestion (nextQuestion session0)\<lparr>filters := initialFilters\<lparr>f_category := ''Geography''\<rparr>\<rparr>"
  have h: "js_nth (filteredQuestions (applyFilters ?h)) (currentIndex ?h) = None"
    by (simp add: view_after_category session0_moved)
  have g1: "js_nth (filteredQuestions ?g) (currentIndex ?g) = Some qB"
    by (simp add: session0_moved session0_view)
  have g2: "qB \<in> set (filteredQuestions (applyFilters ?g))"
    by (simp add: view_after_category)
  have g3: "js_nth (filteredQuestions (applyFilters ?g)) (currentIndex ?g) \<noteq> None"
    by (simp add: view_after_category session0_moved)
  have "currentIndex (applyFilters ?h) = Num 0"
    using applyFilters_index [of ?h] h by blast
  moreover have "currentIndex (applyFilters ?g) = currentIndex ?g"
    using applyFilters_index [of ?g] g1 g2 g3 by blast
  ultimately show ?thesis by (simp add: session0_moved)
qed

text \<open>
  The claim as written fails: with the second record current (index 1), choosing the
  category \<open>Geography\<close> leaves the view \<open>[qB, qC]\<close>; the record that was current is now at
  position 0, and \<open>currentIndex\<close> stays 1, on the third record.
\<close>

theorem keeps_pointing_counterexample:
  "js_nth (filteredQuestions (nextQuestion (nextQuestion session0)))
          (currentIndex (nextQuestion (nextQuestion session0))) = Some qB
   \<and> filteredQuestions
        (handleFilterChange (Some ''category-filter'') (Some (selectCategory ''Geography''))
           (nextQuestion (nextQuestion session0))) = [qB, qC]
   \<and> spec_index_after (nextQuestion (nextQuestion session0)) [qB, qC] = Num 0
   \<and> currentIndex
        (handleFilterChange (Some ''category-filter'') (Some (selectCategory ''Geography''))
           (nextQuestion (nextQuestion session0))) = Num 1"
proof -
  let ?s = "nextQuestion (nextQuestion session0)"
  let ?g = "?s\<lparr>filters := initialFilters\<lparr>f_category := ''Geography''\<rparr>\<rparr>"
  have hf: "handleFilterChange (Some ''category-filter'') (Some (selectCategory ''Geography'')) ?s
              = applyFilters ?g"
    by (simp add: handleFilterChange_def Let_def selectCategory_def session0_filters
          initialFilters_def)
  have 1: "js_nth (filteredQuestions ?s) (currentIndex ?s) = Some qB"
    by (simp add: session0_moved session0_view)
  have 2: "filteredQuestions (applyFilters ?g) = [qB, qC]"
    by (rule view_after_category)
  have 3: "spec_index_after ?s [qB, qC] = Num 0"
    unfolding spec_index_after_def 1 by (simp add: findIndex_def qB_def qC_def)
  have 4: "currentIndex (applyFilters ?g) = Num 1"
    by (simp add: currentIndex_applyFilters 2 session0_moved)
  show ?thesis unfolding hf using 1 2 3 4 by blast
qed

section \<open>Importing bookmarks\<close>

text \<open>
  C7. When the imported set name (\<open>importedSet\<close>) differs from the active set name
  (\<open>currentSet\<close>), \<open>handleBookmarkImport\<close> on a payload with a \<open>bookmarks\<close> array reports
  the set mismatch and returns the session as it was: \<open>bookmarkedQuestions\<close> and every
  other variable are unchanged. Both names are taken as the code reads them, an empty or
  missing name standing for \<open>unknown\<close>.
\<close>

theorem import_set_mismatch:
  assumes "importedSet pset \<noteq> currentSet s"
  shows "handleBookmarkImport (Payload pset bms) s = (SetMismatch, s)"
  using assms by (simp add: handleBookmarkImport_def)

theorem import_set_mismatch_witness:
  "sheetName session0 = ''2020''
   \<and> handleBookmarkImport (Payload (Some ''2008'') [2, 5]) session0 = (SetMismatch, session0)"
proof -
  have n: "sheetName session0 = ''2020''"
    by (simp add: session0_def)
  have "importedSet (Some ''2008'') \<noteq> currentSet session0"
    by (simp add: importedSet_def currentSet_def n)
  from import_set_mismatch [OF this, of "[2, 5]"] n show ?thesis by simp
qed

section \<open>Loading\<close>

lemma qid_transformRow: "qid (transformRow trim lower ir) = int (fst ir) + 1"
  by (simp add: transformRow_def Let_def)

lemma distinct_ids_rows:
  "distinct (map qid (map (transformRow trim lower) (enumerate 0 rows)))"
proof -
  have "map qid (map (transformRow trim lower) (enumerate 0 rows))
          = map (\<lambda>i. int i + 1) (map fst (enumerate 0 rows))"
    by (simp add: qid_transformRow comp_def del: map_fst_enumerate)
  also have "map fst (enumerate 0 rows) = [0..<length rows]"
    by (simp add: map_fst_enumerate)
  finally show ?thesis
    by (simp add: distinct_map inj_on_def)
qed

text \<open>The records built from a sheet have pairwise different ids, by construction.\<close>

lemma distinct_ids_transformSheetsData:
  "distinct (map qid (transformSheetsData trim lower data))"
  unfolding transformSheetsData_def
  by (auto simp: Let_def distinct_map_filter distinct_ids_rows simp del: map_map
           split: option.splits)

lemma questions_unchanged [simp]:
  "questions (resetProgress s) = questions s"
  "questions (resetBookmarks s) = questions s"
  "questions (resetFilters s) = questions s"
  "questions (initializeBookmarks s) = questions s"
  "questions (saveBookmarks s) = questions s"
  "questions (initSheetsDropdown names s) = questions s"
  by (simp_all add: resetProgress_def initHistory_def Let_def resetBookmarks_def
        resetFilters_def initializeBookmarks_def loadBookmarksFromStorage_def
        saveBookmarks_def initSheetsDropdown_def split: prod.splits option.splits)

lemma initSheetsAndData_completes:
  "\<not> load_failed (initSheetsAndData mock sheetNames sheet localJson False s)"
  "loaded_questions (initSheetsAndData mock sheetNames sheet localJson False s)
     = (if sheet \<noteq> [] then sheet
        else case localJson of
               None \<Rightarrow> mock
             | Some l \<Rightarrow> (if l \<noteq> [] then l else mock))"
  by (simp_all add: initSheetsAndData_def Let_def split: option.splits)

lemma initSheetsAndData_caught:
  "load_failed (initSheetsAndData mock sheetNames sheet localJson True s)"
  "loaded_questions (initSheetsAndData mock sheetNames sheet localJson True s) = mock"
  by (simp_all add: initSheetsAndData_def)

text \<open>
  C8 (as amended). The initial load makes no check of ids and has no outcome that rejects
  the records. When no statement of \<open>initSheetsAndData\<close> throws, the load completes: a
  non-empty record list replaces \<open>questions\<close> wholesale, whether or not two of its records
  share an id, and an empty one is replaced by the fallback the loader always has, the
  content of the local file when that is non-empty and the built-in questions otherwise.
  When a statement throws, whatever the records, the \<open>catch\<close> installs the built-in
  questions and shows the error.
\<close>

theorem load_replaces_or_falls_back:
  "(\<not> throws \<and> sheet \<noteq> [] \<longrightarrow>
      \<not> load_failed (initSheetsAndData mock sheetNames sheet localJson throws s)
      \<and> loaded_questions (initSheetsAndData mock sheetNames sheet localJson throws s) = sheet)
   \<and> (\<not> throws \<and> sheet = [] \<longrightarrow>
      \<not> load_failed (initSheetsAndData mock sheetNames sheet localJson throws s)
      \<and> loaded_questions (initSheetsAndData mock sheetNames sheet localJson throws s)
          = (case localJson of None \<Rightarrow> mock | Some l \<Rightarrow> (if l \<noteq> [] then l else mock)))
   \<and> (throws \<longrightarrow>
      load_failed (initSheetsAndData mock sheetNames sheet localJson throws s)
      \<and> loaded_questions (initSheetsAndData mock sheetNames sheet localJson throws s) = mock)"
proof (cases throws)
  case True
  then show ?thesis
    by (simp add: initSheetsAndData_caught)
next
  case False
  then show ?thesis
    by (simp add: initSheetsAndData_completes)
qed

theorem load_replaces_or_falls_back_witness:
  "loaded_questions (initSheetsAndData [qC] None [qA, qB] None False session0) = [qA, qB]
   \<and> loaded_questions (initSheetsAndData [qC] None [] None False session0) = [qC]
   \<and> load_failed (initSheetsAndData [qC] None [qA, qB] None True session0)"
proof -
  have a: "\<not> False \<and> [qA, qB] \<noteq> []" and b: "\<not> False \<and> ([] :: question list) = []"
    by simp_all
  from load_replaces_or_falls_back [of False "[qA, qB]" "[qC]" None None session0] a
  have 1: "loaded_questions (initSheetsAndData [qC] None [qA, qB] None False session0) = [qA, qB]"
    by blast
  from load_replaces_or_falls_back [of False "[]" "[qC]" None None session0] b
  have 2: "loaded_questions (initSheetsAndData [qC] None [] None False session0) = [qC]"
    by simp
  from load_replaces_or_falls_back [of True "[qA, qB]" "[qC]" None None session0]
  have 3: "load_failed (initSheetsAndData [qC] None [qA, qB] None True session0)"
    by blast
  from 1 2 3 show ?thesis by blast
qed

text \<open>
  The claim as written fails: a local file with two records of id 1 is a load the
  specification rejects, and the code completes the load and installs both records.
\<close>

theorem duplicate_ids_load_counterexample:
  "spec_load_fails [qA, qD] True
   \<and> \<not> load_failed (initSheetsAndData [qC] None [] (Some [qA, qD]) False session0)
   \<and> loaded_questions (initSheetsAndData [qC] None [] (Some [qA, qD]) False session0) = [qA, qD]"
  by (simp add: spec_load_fails_def initSheetsAndData_completes qA_def qD_def)

section \<open>Changing the category\<close>

text \<open>
  C9. After \<open>handleFilterChange\<close> fired by the category select, whatever the selects
  hold (so also from \<open>All\<close> to \<open>History\<close> with a sub-category chosen before),
  \<open>filters.category\<close> is the chosen category and \<open>filters.subCategory\<close> is \<open>All\<close>; the
  only other operation that changes the category, \<open>resetFilters\<close>, sets both to \<open>All\<close>.
\<close>

theorem category_change_resets_subCategory:
  "f_category (filters (handleFilterChange (Some ''category-filter'') (Some d) s)) = sel_category d
   \<and> f_subCategory (filters (handleFilterChange (Some ''category-filter'') (Some d) s)) = ''All''
   \<and> f_category (filters (resetFilters s)) = ''All''
   \<and> f_subCategory (filters (resetFilters s)) = ''All''"
  by (simp add: handleFilterChange_def resetFilters_def Let_def)

theorem category_change_resets_subCategory_witness:
  "f_subCategory (filters (session0\<lparr>filters := initialFilters\<lparr>f_subCategory := ''Rivers''\<rparr>\<rparr>))
     = ''Rivers''
   \<and> f_subCategory
       (filters
          (handleFilterChange (Some ''category-filter'')
             (Some ((selectCategory ''History'')\<lparr>sel_subCategory := ''Rivers''\<rparr>))
             (session0\<lparr>filters := initialFilters\<lparr>f_subCategory := ''Rivers''\<rparr>\<rparr>)))
     = ''All''"
  using category_change_resets_subCategory
          [of "(selectCategory ''History'')\<lparr>sel_subCategory := ''Rivers''\<rparr>"
              "session0\<lparr>filters := initialFilters\<lparr>f_subCategory := ''Rivers''\<rparr>\<rparr>"]
  by simp

section \<open>Toggling a bookmark with no current record\<close>

text \<open>
  C10. When the view is empty, or \<open>currentIndex\<close> addresses no record of it,
  \<open>toggleBookmark\<close> returns at its first test with the session as it was: no field of a
  record is read, and \<open>bookmarkedQuestions\<close>, \<open>answeredQuestions\<close>, \<open>currentIndex\<close> and
  \<open>showAnswerFlag\<close> (and all else) are unchanged.
\<close>

theorem toggleBookmark_noop:
  assumes "filteredQuestions s = [] \<or> js_nth (filteredQuestions s) (currentIndex s) = None"
  shows "toggleBookmark s = s"
  using assms by (auto simp: toggleBookmark_def js_nth_Nil)

theorem toggleBookmark_noop_witness:
  "filteredQuestions (session0\<lparr>filteredQuestions := []\<rparr>) = []
   \<and> toggleBookmark (session0\<lparr>filteredQuestions := []\<rparr>) = session0\<lparr>filteredQuestions := []\<rparr>"
proof -
  have e: "filteredQuestions (session0\<lparr>filteredQuestions := []\<rparr>) = []"
    by simp
  then have "filteredQuestions (session0\<lparr>filteredQuestions := []\<rparr>) = []
      \<or> js_nth (filteredQuestions (session0\<lparr>filteredQuestions := []\<rparr>))
           (currentIndex (session0\<lparr>filteredQuestions := []\<rparr>)) = None"
    by blast
  from toggleBookmark_noop [OF this] e show ?thesis by blast
qed

end
